theory Spec2Isabelle
  imports Main "HOL-Library.Sublist"
begin

section \<open>Python string operations used by \<open>main.py\<close>\<close>

text \<open>
  A prompt is a Python \<open>str\<close> whose code points are below 256: a \<open>string\<close>, one
  \<open>char\<close> per code point. On these strings \<open>str.strip\<close>, \<open>str.lower\<close>,
  \<open>str.replace\<close>, \<open>str.split\<close> and \<open>str.join\<close> stay below 256 and are modelled as
  functions on \<open>string\<close>, following the Unicode properties that CPython uses for the
  code points 0 to 255. \<open>str.title\<close> leaves the range at three characters (the micro
  sign, the sharp s and the y with diaeresis), so its result, and with it the product
  name and \<open>hero.title\<close>, is a list of code points. In the fixed texts of the source
  that the model keeps as \<open>string\<close>, the code points above 255 (the em dash, the check
  mark, the cross mark and the warning sign) are written as their UTF-8 bytes.
\<close>

text \<open>
  The whitespace that \<open>str.strip\<close> removes: the code points 9 to 13, 28 to 32, 133
  (next line) and 160 (no-break space).
\<close>

definition whitespace :: "char list" where
  "whitespace = [CHR 0x09, CHR 0x0A, CHR 0x0B, CHR 0x0C, CHR 0x0D,
                 CHR 0x1C, CHR 0x1D, CHR 0x1E, CHR 0x1F, CHR 0x20,
                 CHR 0x85, CHR 0xA0]"

definition is_space :: "char \<Rightarrow> bool" where
  "is_space c = (c \<in> set whitespace)"

text \<open>\<open>s.strip()\<close>: leading and trailing whitespace removed.\<close>

definition strip :: "string \<Rightarrow> string" where
  "strip s = rev (dropWhile is_space (rev (dropWhile is_space s)))"

text \<open>
  The characters with a lowercase mapping and their images, in the same order: the
  letters A to Z and the code points 192 to 222 without 215 (the multiplication sign),
  each mapped to the code point 32 above it.
\<close>

definition upper_letters :: "char list" where
  "upper_letters = ''ABCDEFGHIJKLMNOPQRSTUVWXYZ'' @
     [CHR 0xC0, CHR 0xC1, CHR 0xC2, CHR 0xC3, CHR 0xC4, CHR 0xC5, CHR 0xC6, CHR 0xC7,
      CHR 0xC8, CHR 0xC9, CHR 0xCA, CHR 0xCB, CHR 0xCC, CHR 0xCD, CHR 0xCE, CHR 0xCF,
      CHR 0xD0, CHR 0xD1, CHR 0xD2, CHR 0xD3, CHR 0xD4, CHR 0xD5, CHR 0xD6, CHR 0xD8,
      CHR 0xD9, CHR 0xDA, CHR 0xDB, CHR 0xDC, CHR 0xDD, CHR 0xDE]"

definition lower_letters :: "char list" where
  "lower_letters = ''abcdefghijklmnopqrstuvwxyz'' @
     [CHR 0xE0, CHR 0xE1, CHR 0xE2, CHR 0xE3, CHR 0xE4, CHR 0xE5, CHR 0xE6, CHR 0xE7,
      CHR 0xE8, CHR 0xE9, CHR 0xEA, CHR 0xEB, CHR 0xEC, CHR 0xED, CHR 0xEE, CHR 0xEF,
      CHR 0xF0, CHR 0xF1, CHR 0xF2, CHR 0xF3, CHR 0xF4, CHR 0xF5, CHR 0xF6, CHR 0xF8,
      CHR 0xF9, CHR 0xFA, CHR 0xFB, CHR 0xFC, CHR 0xFD, CHR 0xFE]"

definition lower_char :: "char \<Rightarrow> char" where
  "lower_char c = (case map_of (zip upper_letters lower_letters) c of Some d \<Rightarrow> d | None \<Rightarrow> c)"

definition upper_char :: "char \<Rightarrow> char" where
  "upper_char c = (case map_of (zip lower_letters upper_letters) c of Some d \<Rightarrow> d | None \<Rightarrow> c)"

text \<open>
  The cased characters: the letters above, and the five lowercase characters without an
  uppercase partner below 256: the ordinal indicators 170 and 186, the micro sign 181,
  the sharp s 223 and the y with diaeresis 255.
\<close>

definition is_cased :: "char \<Rightarrow> bool" where
  "is_cased c =
     (c \<in> set upper_letters \<or> c \<in> set lower_letters \<or>
      c \<in> set [CHR 0xAA, CHR 0xB5, CHR 0xBA, CHR 0xDF, CHR 0xFF])"

text \<open>The code points of a string.\<close>

definition codes :: "string \<Rightarrow> nat list" where
  "codes s = map of_char s"

text \<open>
  The titlecase mapping of a character, as code points: the micro sign becomes the
  Greek capital mu (924), the sharp s becomes \<open>Ss\<close>, the y with diaeresis becomes its
  capital (376), a lowercase letter becomes its uppercase partner, and any other
  character is unchanged.
\<close>

definition title_char :: "char \<Rightarrow> nat list" where
  "title_char c =
     (if c = CHR 0xB5 then [0x39C]
      else if c = CHR 0xDF then [0x53, 0x73]
      else if c = CHR 0xFF then [0x178]
      else [of_char (upper_char c)])"

text \<open>\<open>s.lower()\<close>.\<close>

definition lower :: "string \<Rightarrow> string" where
  "lower s = map lower_char s"

text \<open>
  \<open>s.title()\<close>: a character that follows a cased character is lowercased, any other
  character is titlecased (CPython's \<open>previous_is_cased\<close> flag).
\<close>

fun title_from :: "bool \<Rightarrow> string \<Rightarrow> nat list" where
  "title_from previous_is_cased [] = []"
| "title_from previous_is_cased (c # cs) =
     (if previous_is_cased then [of_char (lower_char c)] else title_char c)
     @ title_from (is_cased c) cs"

definition title :: "string \<Rightarrow> nat list" where
  "title s = title_from False s"

text \<open>\<open>k in s\<close> for two strings: \<open>k\<close> occurs in \<open>s\<close> as a contiguous substring.\<close>

fun substr_in :: "string \<Rightarrow> string \<Rightarrow> bool" where
  "substr_in k [] = (k = [])"
| "substr_in k (c # cs) = (prefix k (c # cs) \<or> substr_in k cs)"

text \<open>\<open>any(k in s for k in ks)\<close>.\<close>

definition any_in :: "string list \<Rightarrow> string \<Rightarrow> bool" where
  "any_in ks s = list_ex (\<lambda>k. substr_in k s) ks"

text \<open>\<open>s.replace(a, b)\<close> for two one-character strings.\<close>

definition replace_char :: "char \<Rightarrow> char \<Rightarrow> string \<Rightarrow> string" where
  "replace_char a b s = map (\<lambda>c. if c = a then b else c) s"

text \<open>\<open>s.split(sep)\<close> for a one-character separator; \<open>''''.split(sep)\<close> is \<open>['''']\<close>.\<close>

fun split_on :: "char \<Rightarrow> string \<Rightarrow> string list" where
  "split_on sep [] = [[]]"
| "split_on sep (c # cs) =
     (if c = sep then [] # split_on sep cs
      else (case split_on sep cs of
              [] \<Rightarrow> [[c]]
            | t # ts \<Rightarrow> (c # t) # ts))"

text \<open>\<open>sep.join(xs)\<close>.\<close>

fun join :: "string \<Rightarrow> string list \<Rightarrow> string" where
  "join sep [] = []"
| "join sep [x] = x"
| "join sep (x # y # ys) = x @ sep @ join sep (y # ys)"

text \<open>
  \<open>list(dict.fromkeys(xs))\<close>: the keys in insertion order, a key that is already present
  keeps its place.
\<close>

definition fromkeys :: "string list \<Rightarrow> string list" where
  "fromkeys xs = foldl (\<lambda>keys x. if x \<in> set keys then keys else keys @ [x]) [] xs"

section \<open>The generator: \<open>generate\<close>\<close>

record GenerateRequest =
  prompt :: string

record hero_section =
  hero_title :: "nat list"
  hero_subtitle :: string
  hero_cta :: string

record features_section =
  features_items :: "string list"

record cta_section =
  cta_title :: string
  cta_button :: string

record page_data =
  hero :: hero_section
  features :: features_section
  cta :: cta_section

record GenerateResponse =
  data :: page_data
  themeId :: string

definition em_dash :: string where
  "em_dash = [CHR 0xE2, CHR 0x80, CHR 0x94]"

text \<open>The theme heuristic: three checks in sequence, each overwriting \<open>theme\<close>.\<close>

definition theme_of :: "string \<Rightarrow> string" where
  "theme_of lower_prompt =
     (let theme = ''fintech'';
          theme = (if any_in [''bank'', ''fintech'', ''saas'', ''analytics'', ''ai'', ''ml''] lower_prompt
                   then ''fintech'' else theme);
          theme = (if any_in [''sunset'', ''creative'', ''design'', ''marketing'', ''brand'', ''portfolio''] lower_prompt
                   then ''sunset'' else theme);
          theme = (if any_in [''health'', ''calm'', ''wellness'', ''eco'', ''green'', ''garden''] lower_prompt
                   then ''mint'' else theme)
      in theme)"

text \<open>The tokens of the stripped prompt and the product name.\<close>

definition tokens_of :: "string \<Rightarrow> string list" where
  "tokens_of p = filter (\<lambda>t. t \<noteq> []) (split_on (CHR '' '') (replace_char (CHR 0x0A) (CHR '' '') p))"

definition name_of :: "string \<Rightarrow> nat list" where
  "name_of p =
     (let name = codes ''Your Product'';
          tokens = tokens_of p
      in if tokens \<noteq> [] then
           (let cand = strip (join '' '' (take 3 tokens))
            in if cand \<noteq> [] then title cand else name)
         else name)"

text \<open>The inner function \<open>add_feat\<close>, with the list it closes over as an argument.\<close>

definition add_feat :: "string \<Rightarrow> string list \<Rightarrow> string list" where
  "add_feat t feature_bank =
     (if t \<noteq> [] \<and> t \<notin> set feature_bank then feature_bank @ [t] else feature_bank)"

definition default_features :: "string list" where
  "default_features =
     [''Clean, modern UI built for conversion'',
      ''Lightning-fast performance and SEO'',
      ''Effortless setup '' @ em_dash @ '' launch in minutes'']"

text \<open>
  The six keyword checks, in the source's order, on the pair
  \<open>(feature_bank, subtitle_bits)\<close>.
\<close>

definition accumulate :: "string \<Rightarrow> string list \<times> string list" where
  "accumulate lower_prompt =
     (let feature_bank = []; subtitle_bits = [];
          (feature_bank, subtitle_bits) =
            (if any_in [''ai'', ''ml'', ''gpt'', ''chat''] lower_prompt
             then (add_feat ''AI-assisted workflows that learn from your usage'' feature_bank,
                   subtitle_bits @ [''AI-powered''])
             else (feature_bank, subtitle_bits));
          (feature_bank, subtitle_bits) =
            (if any_in [''analytics'', ''insight'', ''metric'', ''dashboard''] lower_prompt
             then (add_feat ''Real-time analytics dashboards with actionable insights'' feature_bank,
                   subtitle_bits @ [''analytics''])
             else (feature_bank, subtitle_bits));
          (feature_bank, subtitle_bits) =
            (if any_in [''team'', ''collab'', ''share''] lower_prompt
             then (add_feat ''Team collaboration with comments and shared libraries'' feature_bank,
                   subtitle_bits @ [''collaboration''])
             else (feature_bank, subtitle_bits));
          feature_bank =
            (if any_in [''mobile'', ''ios'', ''android'', ''responsive''] lower_prompt
             then add_feat (''Responsive by default '' @ em_dash @ '' perfect on mobile and desktop'') feature_bank
             else feature_bank);
          feature_bank =
            (if any_in [''secure'', ''privacy'', ''gdpr'', ''auth''] lower_prompt
             then add_feat ''Enterprise-grade security and role-based access'' feature_bank
             else feature_bank);
          feature_bank =
            (if any_in [''api'', ''integrations'', ''zapier'', ''slack'', ''notion''] lower_prompt
             then add_feat ''One-click integrations with your favorite tools'' feature_bank
             else feature_bank);
          feature_bank = (if feature_bank = [] then default_features else feature_bank)
      in (feature_bank, subtitle_bits))"

definition subtitle_of :: "string list \<Rightarrow> string" where
  "subtitle_of subtitle_bits =
     (if subtitle_bits \<noteq> []
      then join '', '' (fromkeys subtitle_bits) @ '' platform to help you move faster''
      else ''A minimal landing that explains your value clearly.'')"

definition generate :: "GenerateRequest \<Rightarrow> GenerateResponse" where
  "generate req =
     (let p = strip (prompt req);
          lower_prompt = lower p;
          theme = theme_of lower_prompt;
          name = name_of p;
          (feature_bank, subtitle_bits) = accumulate lower_prompt;
          subtitle = subtitle_of subtitle_bits
      in \<lparr> data =
             \<lparr> hero = \<lparr> hero_title = name @ codes '': launch faster with clarity'',
                        hero_subtitle = subtitle,
                        hero_cta = ''Get Started'' \<rparr>,
               features = \<lparr> features_items = feature_bank \<rparr>,
               cta = \<lparr> cta_title = ''Ready to launch your landing?'',
                       cta_button = ''Generate Page'' \<rparr> \<rparr>,
           themeId = theme \<rparr>)"

section \<open>The diagnostic endpoint: \<open>test_database\<close>\<close>



















section \<open>The outcomes of the probe\<close>








section \<open>The rules of the generator as tables\<close>

text \<open>
  The six keyword checks read as a table, in the order in which the source evaluates
  them: the keywords of a check and the feature it adds; and the three checks that also
  append a tag to \<open>subtitle_bits\<close>. The theorems below compare \<open>accumulate\<close> with a
  single pass over these tables.
\<close>

definition feature_table :: "(string list \<times> string) list" where
  "feature_table =
     [([''ai'', ''ml'', ''gpt'', ''chat''],
       ''AI-assisted workflows that learn from your usage''),
      ([''analytics'', ''insight'', ''metric'', ''dashboard''],
       ''Real-time analytics dashboards with actionable insights''),
      ([''team'', ''collab'', ''share''],
       ''Team collaboration with comments and shared libraries''),
      ([''mobile'', ''ios'', ''android'', ''responsive''],
       ''Responsive by default '' @ em_dash @ '' perfect on mobile and desktop''),
      ([''secure'', ''privacy'', ''gdpr'', ''auth''],
       ''Enterprise-grade security and role-based access''),
      ([''api'', ''integrations'', ''zapier'', ''slack'', ''notion''],
       ''One-click integrations with your favorite tools'')]"

definition tag_table :: "(string list \<times> string) list" where
  "tag_table =
     [([''ai'', ''ml'', ''gpt'', ''chat''], ''AI-powered''),
      ([''analytics'', ''insight'', ''metric'', ''dashboard''], ''analytics''),
      ([''team'', ''collab'', ''share''], ''collaboration'')]"

text \<open>The entries of a table whose keywords match, in the table's order.\<close>

definition matching :: "(string list \<times> string) list \<Rightarrow> string \<Rightarrow> string list" where
  "matching table s = map snd (filter (\<lambda>(ks, v). any_in ks s) table)"

text \<open>
  A keyword that is not empty and neither starts nor ends with whitespace occurs in the
  stripped prompt exactly when it occurs in the prompt; every keyword of the source is
  one.
\<close>

definition solid :: "string \<Rightarrow> bool" where
  "solid k = (k \<noteq> [] \<and> \<not> is_space (hd k) \<and> \<not> is_space (last k))"

text \<open>The list \<open>subtitle_bits\<close> of a request when the six checks are done.\<close>

definition subtitle_bits_of :: "GenerateRequest \<Rightarrow> string list" where
  "subtitle_bits_of req = snd (accumulate (lower (strip (prompt req))))"

text \<open>
  The elements of a list without repetition, each at the place of its first occurrence:
  what the specification asks of the tags of the subtitle.
\<close>

fun unique_first :: "string list \<Rightarrow> string list" where
  "unique_first [] = []"
| "unique_first (x # xs) = x # unique_first (filter (\<lambda>y. y \<noteq> x) xs)"

text \<open>The eight subtitles that the three tags can produce.\<close>

definition subtitle_range :: "string set" where
  "subtitle_range =
     {''A minimal landing that explains your value clearly.'',
      ''AI-powered platform to help you move faster'',
      ''analytics platform to help you move faster'',
      ''collaboration platform to help you move faster'',
      ''AI-powered, analytics platform to help you move faster'',
      ''AI-powered, collaboration platform to help you move faster'',
      ''analytics, collaboration platform to help you move faster'',
      ''AI-powered, analytics, collaboration platform to help you move faster''}"

text \<open>
  The name as claim C4 words it: newlines replaced by spaces in the trimmed prompt, split
  on single spaces, empty tokens dropped, the first three tokens joined by one space, the
  result title-cased; \<open>Your Product\<close> when there is no token.
\<close>

definition spec_name :: "string \<Rightarrow> nat list" where
  "spec_name raw =
     (let tokens = filter (\<lambda>t. t \<noteq> [])
                     (split_on (CHR '' '') (replace_char (CHR 0x0A) (CHR '' '') (strip raw)))
      in if tokens = [] then codes ''Your Product'' else title (join '' '' (take 3 tokens)))"

section \<open>Facts about the string operations\<close>

text \<open>
  The operations outside ASCII: the no-break space and the next-line character are
  stripped, the capital e with acute accent is lowercased, the multiplication sign is
  not a letter.
\<close>

lemma strip_lower_examples:
  "strip ([CHR 0xA0] @ ''team '' @ [CHR 0x85]) = ''team''"
  "lower (''AI '' @ [CHR 0xC9, CHR 0xD7, CHR 0xDE]) = ''ai '' @ [CHR 0xE9, CHR 0xD7, CHR 0xFE]"
  by code_simp+

lemma substr_in_sublist: "substr_in k s = sublist k s"
  by (induction s) (simp_all add: sublist_Cons_right)

lemma sublist_dropWhile:
  assumes "k \<noteq> []" and "\<not> P (hd k)"
  shows "sublist k (dropWhile P s) = sublist k s"
proof (induction s)
  case Nil
  show ?case by simp
next
  case (Cons c cs)
  show ?case
  proof (cases "P c")
    case True
    from assms have "\<not> prefix k (c # cs)"
      using True by (cases k) auto
    with True Cons show ?thesis
      by (simp add: sublist_Cons_right)
  next
    case False
    then show ?thesis by simp
  qed
qed

lemma sublist_strip:
  assumes "k \<noteq> []" and "\<not> is_space (hd k)" and "\<not> is_space (last k)"
  shows "sublist k (strip s) = sublist k s"
proof -
  have "sublist k (strip s) = sublist (rev k) (dropWhile is_space (rev (dropWhile is_space s)))"
    by (simp add: strip_def sublist_rev_right)
  also have "\<dots> = sublist (rev k) (rev (dropWhile is_space s))"
    using assms by (intro sublist_dropWhile) (simp_all add: hd_rev)
  also have "\<dots> = sublist k (dropWhile is_space s)"
    by simp
  also have "\<dots> = sublist k s"
    using assms by (intro sublist_dropWhile)
  finally show ?thesis .
qed

lemma lower_char_cases:
  "lower_char c = c \<or> (c \<in> set upper_letters \<and> lower_char c \<in> set lower_letters)"
proof (cases "map_of (zip upper_letters lower_letters) c")
  case None
  then show ?thesis by (simp add: lower_char_def)
next
  case (Some d)
  then have "(c, d) \<in> set (zip upper_letters lower_letters)"
    by (rule map_of_SomeD)
  then have "c \<in> set upper_letters" and "d \<in> set lower_letters"
    by (auto dest: set_zip_leftD set_zip_rightD)
  with Some show ?thesis by (simp add: lower_char_def)
qed

lemma letters_not_space:
  "c \<in> set upper_letters \<or> c \<in> set lower_letters \<Longrightarrow> \<not> is_space c"
  by (auto simp: upper_letters_def lower_letters_def is_space_def whitespace_def)

lemma is_space_lower_char: "is_space (lower_char c) = is_space c"
  using lower_char_cases [of c] letters_not_space [of c] letters_not_space [of "lower_char c"]
  by auto

lemma lower_strip: "lower (strip s) = strip (lower s)"
  by (simp add: strip_def lower_def dropWhile_map rev_map comp_def is_space_lower_char)

lemma rstrip_prefix: "prefix (rev (dropWhile P (rev u))) u"
  by (induction u rule: rev_induct) (auto intro: prefix_order.trans)

lemma strip_head: "strip s = [] \<or> \<not> is_space (hd (strip s))"
proof (cases "strip s = []")
  case True
  then show ?thesis ..
next
  case False
  let ?u = "dropWhile is_space s"
  have p: "prefix (strip s) ?u"
    unfolding strip_def by (rule rstrip_prefix)
  with False have "?u \<noteq> []" by (cases "?u") simp_all
  then have "\<not> is_space (hd ?u)" by (rule hd_dropWhile)
  moreover from p False have "hd (strip s) = hd ?u"
    by (auto simp: prefix_def)
  ultimately show ?thesis by simp
qed

lemma strip_idem: "strip (strip s) = strip s"
proof -
  have a: "dropWhile is_space (strip s) = strip s"
    using strip_head [of s] by (simp add: dropWhile_eq_self_iff)
  have "strip (strip s) = rev (dropWhile is_space (rev (strip s)))"
    unfolding strip_def [of "strip s"] a ..
  also have "\<dots> = strip s"
    by (simp add: strip_def)
  finally show ?thesis .
qed

lemma any_in_strip: "list_all solid ks \<Longrightarrow> any_in ks (strip s) = any_in ks s"
  by (induction ks) (simp_all add: any_in_def substr_in_sublist sublist_strip solid_def)

lemma any_in_lower_strip:
  "list_all solid ks \<Longrightarrow> any_in ks (lower (strip s)) = any_in ks (lower s)"
  by (simp add: lower_strip any_in_strip)

section \<open>The fields of the generator's result\<close>

lemma generate_themeId: "themeId (generate req) = theme_of (lower (strip (prompt req)))"
  by (simp add: generate_def Let_def split: prod.splits)

lemma generate_items:
  "features_items (features (data (generate req))) = fst (accumulate (lower (strip (prompt req))))"
  by (simp add: generate_def Let_def split: prod.splits)

lemma generate_subtitle:
  "hero_subtitle (hero (data (generate req))) =
     subtitle_of (snd (accumulate (lower (strip (prompt req)))))"
  by (simp add: generate_def Let_def split: prod.splits)

lemma generate_title:
  "hero_title (hero (data (generate req))) =
     name_of (strip (prompt req)) @ codes '': launch faster with clarity''"
  by (simp add: generate_def Let_def split: prod.splits)

section \<open>The six checks as one pass over the tables\<close>

lemma add_feat_fresh: "t \<noteq> [] \<Longrightarrow> t \<notin> set fb \<Longrightarrow> add_feat t fb = fb @ [t]"
  by (simp add: add_feat_def)

lemma accumulate_shape:
  assumes d: "distinct [f1, f2, f3, f4, f5, f6]"
    and n: "f1 \<noteq> []" "f2 \<noteq> []" "f3 \<noteq> []" "f4 \<noteq> []" "f5 \<noteq> []" "f6 \<noteq> []"
  shows "(let feature_bank = []; subtitle_bits = [];
          (feature_bank, subtitle_bits) =
            (if b1 then (add_feat f1 feature_bank, subtitle_bits @ [t1])
             else (feature_bank, subtitle_bits));
          (feature_bank, subtitle_bits) =
            (if b2 then (add_feat f2 feature_bank, subtitle_bits @ [t2])
             else (feature_bank, subtitle_bits));
          (feature_bank, subtitle_bits) =
            (if b3 then (add_feat f3 feature_bank, subtitle_bits @ [t3])
             else (feature_bank, subtitle_bits));
          feature_bank = (if b4 then add_feat f4 feature_bank else feature_bank);
          feature_bank = (if b5 then add_feat f5 feature_bank else feature_bank);
          feature_bank = (if b6 then add_feat f6 feature_bank else feature_bank);
          feature_bank = (if feature_bank = [] then dflt else feature_bank)
      in (feature_bank, subtitle_bits)) =
     (let fs = (if b1 then [f1] else []) @ (if b2 then [f2] else []) @ (if b3 then [f3] else [])
             @ (if b4 then [f4] else []) @ (if b5 then [f5] else []) @ (if b6 then [f6] else [])
      in (if fs = [] then dflt else fs,
          (if b1 then [t1] else []) @ (if b2 then [t2] else []) @ (if b3 then [t3] else [])))"
proof -
  from d have neq:
    "f1 \<noteq> f2" "f1 \<noteq> f3" "f1 \<noteq> f4" "f1 \<noteq> f5" "f1 \<noteq> f6"
    "f2 \<noteq> f3" "f2 \<noteq> f4" "f2 \<noteq> f5" "f2 \<noteq> f6"
    "f3 \<noteq> f4" "f3 \<noteq> f5" "f3 \<noteq> f6"
    "f4 \<noteq> f5" "f4 \<noteq> f6" "f5 \<noteq> f6"
    by simp_all
  show ?thesis
    by (cases b1; cases b2; cases b3; cases b4; cases b5; cases b6)
       (simp_all add: add_feat_def Let_def n neq neq [symmetric])
qed


lemma matching_Cons:
  "matching ((ks, v) # table) s = (if any_in ks s then [v] else []) @ matching table s"
  by (simp add: matching_def)

lemma matching_Nil: "matching [] s = []"
  by (simp add: matching_def)

lemma accumulate_matching:
  "accumulate l =
     (if matching feature_table l = [] then default_features else matching feature_table l,
      matching tag_table l)"
proof -
  have "accumulate l =
     (let fs = (if any_in [''ai'', ''ml'', ''gpt'', ''chat''] l
                then [''AI-assisted workflows that learn from your usage''] else [])
             @ (if any_in [''analytics'', ''insight'', ''metric'', ''dashboard''] l
                then [''Real-time analytics dashboards with actionable insights''] else [])
             @ (if any_in [''team'', ''collab'', ''share''] l
                then [''Team collaboration with comments and shared libraries''] else [])
             @ (if any_in [''mobile'', ''ios'', ''android'', ''responsive''] l
                then [''Responsive by default '' @ em_dash @ '' perfect on mobile and desktop''] else [])
             @ (if any_in [''secure'', ''privacy'', ''gdpr'', ''auth''] l
                then [''Enterprise-grade security and role-based access''] else [])
             @ (if any_in [''api'', ''integrations'', ''zapier'', ''slack'', ''notion''] l
                then [''One-click integrations with your favorite tools''] else [])
      in (if fs = [] then default_features else fs,
          (if any_in [''ai'', ''ml'', ''gpt'', ''chat''] l then [''AI-powered''] else [])
          @ (if any_in [''analytics'', ''insight'', ''metric'', ''dashboard''] l then [''analytics''] else [])
          @ (if any_in [''team'', ''collab'', ''share''] l then [''collaboration''] else [])))"
    unfolding accumulate_def by (rule accumulate_shape) (simp_all add: em_dash_def)
  also have "\<dots> = (if matching feature_table l = [] then default_features else matching feature_table l,
      matching tag_table l)"
    unfolding feature_table_def tag_table_def matching_Cons matching_Nil Let_def append_Nil2 ..
  finally show ?thesis .
qed

section \<open>Keywords and the stripped prompt\<close>

lemma keywords_solid:
  "list_all solid [''bank'', ''fintech'', ''saas'', ''analytics'', ''ai'', ''ml'']"
  "list_all solid [''sunset'', ''creative'', ''design'', ''marketing'', ''brand'', ''portfolio'']"
  "list_all solid [''health'', ''calm'', ''wellness'', ''eco'', ''green'', ''garden'']"
  "list_all solid [''team'', ''collab'', ''share'']"
  by (simp_all add: solid_def is_space_def whitespace_def)

lemma matching_lower_strip:
  "list_all (\<lambda>(ks, v). list_all solid ks) table \<Longrightarrow>
     matching table (lower (strip s)) = matching table (lower s)"
  by (induction table) (auto simp: matching_def any_in_lower_strip)

lemma feature_table_solid: "list_all (\<lambda>(ks, v). list_all solid ks) feature_table"
  by (simp add: feature_table_def solid_def is_space_def whitespace_def)

lemma tag_table_solid: "list_all (\<lambda>(ks, v). list_all solid ks) tag_table"
  by (simp add: tag_table_def solid_def is_space_def whitespace_def)

lemma items_matching:
  "features_items (features (data (generate req))) =
     (if matching feature_table (lower (prompt req)) = [] then default_features
      else matching feature_table (lower (prompt req)))"
  by (simp add: generate_items accumulate_matching matching_lower_strip feature_table_solid)

lemma subtitle_bits_matching: "subtitle_bits_of req = matching tag_table (lower (prompt req))"
  by (simp add: subtitle_bits_of_def accumulate_matching matching_lower_strip tag_table_solid)

lemma theme_precedence:
  "theme_of l =
     (if any_in [''health'', ''calm'', ''wellness'', ''eco'', ''green'', ''garden''] l then ''mint''
      else if any_in [''sunset'', ''creative'', ''design'', ''marketing'', ''brand'', ''portfolio''] l
           then ''sunset''
      else ''fintech'')"
  by (simp add: theme_of_def Let_def)

section \<open>The claims about the generator\<close>

text \<open>
  Claim C2. The theme is chosen by three checks in sequence, the last one that matches
  winning: the returned \<open>themeId\<close> is \<open>mint\<close> if the lowercased prompt contains a mint
  keyword, otherwise \<open>sunset\<close> if it contains a sunset keyword, otherwise \<open>fintech\<close>,
  whether or not a fintech keyword matches. The prompt \<open>AI bank for wellness\<close>, which
  contains a fintech keyword and a mint keyword, yields \<open>mint\<close>.
\<close>

theorem C2_theme_last_write_wins:
  "themeId (generate req) =
     (if any_in [''health'', ''calm'', ''wellness'', ''eco'', ''green'', ''garden'']
           (lower (prompt req)) then ''mint''
      else if any_in [''sunset'', ''creative'', ''design'', ''marketing'', ''brand'', ''portfolio'']
           (lower (prompt req)) then ''sunset''
      else ''fintech'')
   \<and> any_in [''bank'', ''fintech'', ''saas'', ''analytics'', ''ai'', ''ml'']
         (lower ''AI bank for wellness'')
   \<and> themeId (generate \<lparr>prompt = ''AI bank for wellness''\<rparr>) = ''mint''"
proof -
  have "themeId (generate req) = theme_of (lower (strip (prompt req)))"
    by (rule generate_themeId)
  also have "\<dots> =
     (if any_in [''health'', ''calm'', ''wellness'', ''eco'', ''green'', ''garden'']
           (lower (prompt req)) then ''mint''
      else if any_in [''sunset'', ''creative'', ''design'', ''marketing'', ''brand'', ''portfolio'']
           (lower (prompt req)) then ''sunset''
      else ''fintech'')"
    by (simp only: theme_precedence any_in_lower_strip keywords_solid)
  finally have general: "themeId (generate req) =
     (if any_in [''health'', ''calm'', ''wellness'', ''eco'', ''green'', ''garden'']
           (lower (prompt req)) then ''mint''
      else if any_in [''sunset'', ''creative'', ''design'', ''marketing'', ''brand'', ''portfolio'']
           (lower (prompt req)) then ''sunset''
      else ''fintech'')" .
  have k: "any_in [''bank'', ''fintech'', ''saas'', ''analytics'', ''ai'', ''ml'']
         (lower ''AI bank for wellness'')"
    by code_simp
  have e: "themeId (generate \<lparr>prompt = ''AI bank for wellness''\<rparr>) = ''mint''"
    by code_simp
  from general k e show ?thesis by (intro conjI)
qed

text \<open>
  Claim C3. The generator is a total function of the prompt: for every prompt, the empty
  and the whitespace-only ones included, the returned \<open>themeId\<close> is one of \<open>fintech\<close>,
  \<open>sunset\<close> and \<open>mint\<close>, and \<open>features.items\<close> is not empty.
\<close>

theorem C3_generate_total:
  "themeId (generate req) \<in> {''fintech'', ''sunset'', ''mint''}
   \<and> features_items (features (data (generate req))) \<noteq> []"
proof
  show "themeId (generate req) \<in> {''fintech'', ''sunset'', ''mint''}"
    unfolding generate_themeId theme_precedence by (simp del: list.inject)
  show "features_items (features (data (generate req))) \<noteq> []"
    unfolding items_matching by (simp add: default_features_def)
qed

lemma foldl_unique_first:
  "foldl (\<lambda>keys x. if x \<in> set keys then keys else keys @ [x]) acc xs =
     acc @ unique_first (filter (\<lambda>y. y \<notin> set acc) xs)"
proof (induction xs arbitrary: acc)
  case Nil
  show ?case by simp
next
  case (Cons x xs)
  have eq: "(\<lambda>y. y \<noteq> x \<and> y \<notin> set acc) = (\<lambda>y. y \<notin> set acc \<and> y \<noteq> x)"
    by auto
  show ?case
    by (simp add: Cons.IH eq)
qed

lemma fromkeys_unique_first: "fromkeys xs = unique_first xs"
  by (simp add: fromkeys_def foldl_unique_first)

lemma subtitle_bits_shape:
  "subtitle_bits_of req =
     (if any_in [''ai'', ''ml'', ''gpt'', ''chat''] (lower (prompt req)) then [''AI-powered''] else [])
     @ (if any_in [''analytics'', ''insight'', ''metric'', ''dashboard''] (lower (prompt req))
        then [''analytics''] else [])
     @ (if any_in [''team'', ''collab'', ''share''] (lower (prompt req))
        then [''collaboration''] else [])"
  unfolding subtitle_bits_matching tag_table_def matching_Cons matching_Nil append_Nil2 ..

lemma generate_subtitle_bits:
  "hero_subtitle (hero (data (generate req))) = subtitle_of (subtitle_bits_of req)"
  by (simp add: generate_subtitle subtitle_bits_of_def)

text \<open>
  Claim C6. If the list of subtitle tags, accumulated in the order of the checks, is not
  empty, \<open>hero.subtitle\<close> is the tags without repetition, each at its first occurrence,
  joined by a comma and a space and followed by \<open>platform to help you move faster\<close>;
  otherwise it is the fixed sentence. The tags are those of the matching rows of the tag
  table, and the prompt \<open>AI dashboard for analytics\<close> yields the tags \<open>AI-powered\<close> and
  \<open>analytics\<close> and the subtitle \<open>AI-powered, analytics platform to help you move faster\<close>.
\<close>

theorem C6_subtitle_construction:
  "hero_subtitle (hero (data (generate req))) =
     (if subtitle_bits_of req \<noteq> []
      then join '', '' (unique_first (subtitle_bits_of req)) @ '' platform to help you move faster''
      else ''A minimal landing that explains your value clearly.'')
   \<and> subtitle_bits_of req = matching tag_table (lower (prompt req))
   \<and> subtitle_bits_of \<lparr>prompt = ''AI dashboard for analytics''\<rparr> = [''AI-powered'', ''analytics'']
   \<and> hero_subtitle (hero (data (generate \<lparr>prompt = ''AI dashboard for analytics''\<rparr>))) =
       ''AI-powered, analytics platform to help you move faster''"
proof -
  have a: "hero_subtitle (hero (data (generate req))) =
     (if subtitle_bits_of req \<noteq> []
      then join '', '' (unique_first (subtitle_bits_of req)) @ '' platform to help you move faster''
      else ''A minimal landing that explains your value clearly.'')"
    unfolding generate_subtitle_bits subtitle_of_def fromkeys_unique_first ..
  have b: "subtitle_bits_of req = matching tag_table (lower (prompt req))"
    by (rule subtitle_bits_matching)
  have c: "subtitle_bits_of \<lparr>prompt = ''AI dashboard for analytics''\<rparr> = [''AI-powered'', ''analytics'']"
    by code_simp
  have d: "hero_subtitle (hero (data (generate \<lparr>prompt = ''AI dashboard for analytics''\<rparr>))) =
       ''AI-powered, analytics platform to help you move faster''"
    by code_simp
  from a b c d show ?thesis by (intro conjI)
qed

lemma subtitle_of_values:
  "subtitle_of [] = ''A minimal landing that explains your value clearly.''"
  "subtitle_of [''AI-powered''] = ''AI-powered platform to help you move faster''"
  "subtitle_of [''analytics''] = ''analytics platform to help you move faster''"
  "subtitle_of [''collaboration''] = ''collaboration platform to help you move faster''"
  "subtitle_of [''AI-powered'', ''analytics''] =
     ''AI-powered, analytics platform to help you move faster''"
  "subtitle_of [''AI-powered'', ''collaboration''] =
     ''AI-powered, collaboration platform to help you move faster''"
  "subtitle_of [''analytics'', ''collaboration''] =
     ''analytics, collaboration platform to help you move faster''"
  "subtitle_of [''AI-powered'', ''analytics'', ''collaboration''] =
     ''AI-powered, analytics, collaboration platform to help you move faster''"
  by (simp_all add: subtitle_of_def fromkeys_def)

lemma subtitle_in_range: "hero_subtitle (hero (data (generate req))) \<in> subtitle_range"
  unfolding generate_subtitle_bits subtitle_bits_shape
  by (cases "any_in [''ai'', ''ml'', ''gpt'', ''chat''] (lower (prompt req))";
      cases "any_in [''analytics'', ''insight'', ''metric'', ''dashboard''] (lower (prompt req))";
      cases "any_in [''team'', ''collab'', ''share''] (lower (prompt req))")
     (simp_all only: if_True if_False append_Nil append_Cons subtitle_of_values subtitle_range_def
        insert_iff simp_thms)

lemma subtitle_attained:
  "hero_subtitle (hero (data (generate \<lparr>prompt = ''''\<rparr>))) =
     ''A minimal landing that explains your value clearly.''"
  "hero_subtitle (hero (data (generate \<lparr>prompt = ''ai''\<rparr>))) =
     ''AI-powered platform to help you move faster''"
  "hero_subtitle (hero (data (generate \<lparr>prompt = ''metric''\<rparr>))) =
     ''analytics platform to help you move faster''"
  "hero_subtitle (hero (data (generate \<lparr>prompt = ''team''\<rparr>))) =
     ''collaboration platform to help you move faster''"
  "hero_subtitle (hero (data (generate \<lparr>prompt = ''ai metric''\<rparr>))) =
     ''AI-powered, analytics platform to help you move faster''"
  "hero_subtitle (hero (data (generate \<lparr>prompt = ''ai team''\<rparr>))) =
     ''AI-powered, collaboration platform to help you move faster''"
  "hero_subtitle (hero (data (generate \<lparr>prompt = ''metric team''\<rparr>))) =
     ''analytics, collaboration platform to help you move faster''"
  "hero_subtitle (hero (data (generate \<lparr>prompt = ''ai metric team''\<rparr>))) =
     ''AI-powered, analytics, collaboration platform to help you move faster''"
  by code_simp+

lemma subtitle_range_attained:
  "subtitle_range \<subseteq> range (\<lambda>req. hero_subtitle (hero (data (generate req))))"
  unfolding subtitle_range_def
  by (intro insert_subsetI empty_subsetI; (subst subtitle_attained [symmetric], rule rangeI))

lemma subtitle_bits_subseq:
  "subseq (subtitle_bits_of req) [''AI-powered'', ''analytics'', ''collaboration'']"
  unfolding subtitle_bits_shape
  by (cases "any_in [''ai'', ''ml'', ''gpt'', ''chat''] (lower (prompt req))";
      cases "any_in [''analytics'', ''insight'', ''metric'', ''dashboard''] (lower (prompt req))";
      cases "any_in [''team'', ''collab'', ''share''] (lower (prompt req))")
     simp_all

lemma subtitle_bits_distinct: "distinct (subtitle_bits_of req)"
  unfolding subtitle_bits_shape
  by (cases "any_in [''ai'', ''ml'', ''gpt'', ''chat''] (lower (prompt req))";
      cases "any_in [''analytics'', ''insight'', ''metric'', ''dashboard''] (lower (prompt req))";
      cases "any_in [''team'', ''collab'', ''share''] (lower (prompt req))")
     simp_all

lemma card_subtitle_range: "card subtitle_range = 8"
  by (simp add: subtitle_range_def)

text \<open>
  Claim C10. The list of subtitle tags is a subsequence of \<open>AI-powered\<close>, \<open>analytics\<close>,
  \<open>collaboration\<close> in that order, without repetition, so \<open>hero.subtitle\<close> is always one
  of eight fixed strings: the fixed sentence or one of the seven combinations of tags.
  Each of the eight is the subtitle of some prompt, and the eight are different.
\<close>

theorem C10_subtitle_range:
  "subseq (subtitle_bits_of req) [''AI-powered'', ''analytics'', ''collaboration'']
   \<and> distinct (subtitle_bits_of req)
   \<and> hero_subtitle (hero (data (generate req))) \<in> subtitle_range
   \<and> range (\<lambda>r. hero_subtitle (hero (data (generate r)))) = subtitle_range
   \<and> card subtitle_range = 8"
proof -
  have "range (\<lambda>r. hero_subtitle (hero (data (generate r)))) = subtitle_range"
    using subtitle_in_range subtitle_range_attained by blast
  then show ?thesis
    using subtitle_bits_subseq subtitle_bits_distinct subtitle_in_range card_subtitle_range
    by (intro conjI)
qed

text \<open>
  Claim C1 says that a prompt with one of the keywords \<open>team\<close>, \<open>collab\<close>, \<open>share\<close> gets
  the collaboration feature but that the tag \<open>collaboration\<close> is not appended to the
  subtitle tags, so that \<open>collaboration\<close> never occurs in \<open>hero.subtitle\<close>. The source
  appends the tag in that branch: for the prompt \<open>team\<close> the tags are exactly
  \<open>collaboration\<close> and the subtitle contains the word.
\<close>

theorem C1_counterexample:
  "any_in [''team'', ''collab'', ''share''] (lower ''team'')
   \<and> subtitle_bits_of \<lparr>prompt = ''team''\<rparr> = [''collaboration'']
   \<and> substr_in ''collaboration'' (hero_subtitle (hero (data (generate \<lparr>prompt = ''team''\<rparr>))))"
  by code_simp

text \<open>The four subtitles with the tag \<open>collaboration\<close> contain the word.\<close>

lemma collaboration_in_subtitle:
  "substr_in ''collaboration'' (subtitle_of [''collaboration''])"
  "substr_in ''collaboration'' (subtitle_of [''AI-powered'', ''collaboration''])"
  "substr_in ''collaboration'' (subtitle_of [''analytics'', ''collaboration''])"
  "substr_in ''collaboration'' (subtitle_of [''AI-powered'', ''analytics'', ''collaboration''])"
  by (simp_all add: subtitle_of_values)

text \<open>
  Claim C1, amended. For every prompt whose lowercased form contains one of \<open>team\<close>,
  \<open>collab\<close>, \<open>share\<close>, the generator adds the feature
  \<open>Team collaboration with comments and shared libraries\<close> and appends the tag
  \<open>collaboration\<close> to the subtitle tags, so the string \<open>collaboration\<close> occurs in
  \<open>hero.subtitle\<close>.
\<close>

theorem C1_team_tag_appended:
  assumes "any_in [''team'', ''collab'', ''share''] (lower (prompt req))"
  shows "''Team collaboration with comments and shared libraries''
           \<in> set (features_items (features (data (generate req))))
         \<and> ''collaboration'' \<in> set (subtitle_bits_of req)
         \<and> substr_in ''collaboration'' (hero_subtitle (hero (data (generate req))))"
proof (intro conjI)
  have "''Team collaboration with comments and shared libraries''
          \<in> set (matching feature_table (lower (prompt req)))"
    using assms by (simp add: feature_table_def matching_Cons matching_Nil)
  then show "''Team collaboration with comments and shared libraries''
               \<in> set (features_items (features (data (generate req))))"
    unfolding items_matching by (auto simp del: list.inject)
  show "''collaboration'' \<in> set (subtitle_bits_of req)"
    using assms by (simp add: subtitle_bits_shape)
  show "substr_in ''collaboration'' (hero_subtitle (hero (data (generate req))))"
    unfolding generate_subtitle_bits subtitle_bits_shape
    using assms
    by (cases "any_in [''ai'', ''ml'', ''gpt'', ''chat''] (lower (prompt req))";
        cases "any_in [''analytics'', ''insight'', ''metric'', ''dashboard''] (lower (prompt req))")
       (simp_all only: if_True if_False append_Nil append_Cons collaboration_in_subtitle)
qed

text \<open>The amended claim C1 at the prompt \<open>share it\<close>.\<close>

theorem C1_team_tag_appended_witness:
  "any_in [''team'', ''collab'', ''share''] (lower (prompt \<lparr>prompt = ''share it''\<rparr>))
   \<and> ''Team collaboration with comments and shared libraries''
           \<in> set (features_items (features (data (generate \<lparr>prompt = ''share it''\<rparr>))))
   \<and> ''collaboration'' \<in> set (subtitle_bits_of \<lparr>prompt = ''share it''\<rparr>)
   \<and> substr_in ''collaboration'' (hero_subtitle (hero (data (generate \<lparr>prompt = ''share it''\<rparr>))))"
proof -
  have h: "any_in [''team'', ''collab'', ''share''] (lower (prompt \<lparr>prompt = ''share it''\<rparr>))"
    by code_simp
  from h C1_team_tag_appended [OF h] show ?thesis by (intro conjI) simp_all
qed

text \<open>
  Claim C5. If the lowercased prompt matches none of the six keyword sets,
  \<open>features.items\<close> is the default list of three items in its fixed order, as for the
  prompt \<open>hello world\<close>; otherwise it is the features of the matching sets, in the order
  of the checks. It has at most six elements.
\<close>

theorem C5_feature_list:
  "features_items (features (data (generate req))) =
     (if list_ex (\<lambda>(ks, v). any_in ks (lower (prompt req))) feature_table
      then matching feature_table (lower (prompt req))
      else [''Clean, modern UI built for conversion'',
            ''Lightning-fast performance and SEO'',
            ''Effortless setup '' @ em_dash @ '' launch in minutes''])
   \<and> length (features_items (features (data (generate req)))) \<le> 6
   \<and> matching feature_table (lower ''hello world'') = []
   \<and> features_items (features (data (generate \<lparr>prompt = ''hello world''\<rparr>))) =
       [''Clean, modern UI built for conversion'',
        ''Lightning-fast performance and SEO'',
        ''Effortless setup '' @ em_dash @ '' launch in minutes'']"
proof -
  have m: "(matching table s = []) = (\<not> list_ex (\<lambda>(ks, v). any_in ks s) table)" for table s
    by (induction table) (auto simp: matching_def)
  have a: "features_items (features (data (generate req))) =
     (if list_ex (\<lambda>(ks, v). any_in ks (lower (prompt req))) feature_table
      then matching feature_table (lower (prompt req))
      else [''Clean, modern UI built for conversion'',
            ''Lightning-fast performance and SEO'',
            ''Effortless setup '' @ em_dash @ '' launch in minutes''])"
    unfolding items_matching m default_features_def by simp
  have six: "length feature_table = 6"
    by (simp add: feature_table_def)
  have "length (matching feature_table s) \<le> length feature_table" for s
    by (simp add: matching_def)
  then have l: "length (matching feature_table s) \<le> 6" for s
    unfolding six .
  have b: "length (features_items (features (data (generate req)))) \<le> 6"
    unfolding items_matching using l by (simp add: default_features_def)
  have c: "matching feature_table (lower ''hello world'') = []"
    by code_simp
  have d: "features_items (features (data (generate \<lparr>prompt = ''hello world''\<rparr>))) =
       [''Clean, modern UI built for conversion'',
        ''Lightning-fast performance and SEO'',
        ''Effortless setup '' @ em_dash @ '' launch in minutes'']"
    by code_simp
  from a b c d show ?thesis by (intro conjI)
qed

text \<open>
  Claim C8. The whole result of the generator, \<open>themeId\<close> and every field of the page,
  is the same for a prompt and for the prompt with its leading and trailing whitespace
  removed.
\<close>

theorem C8_strip_invariance:
  "generate \<lparr>prompt = strip p\<rparr> = generate \<lparr>prompt = p\<rparr>"
  by (simp add: generate_def strip_idem)

text \<open>
  Claim C9. Two prompts that are equal after lowercasing get the same \<open>themeId\<close>, the
  same \<open>features.items\<close> and the same \<open>hero.subtitle\<close>; the claim leaves \<open>hero.title\<close>
  free.
\<close>

theorem C9_case_noninterference:
  assumes "lower (prompt r1) = lower (prompt r2)"
  shows "themeId (generate r1) = themeId (generate r2)
         \<and> features_items (features (data (generate r1))) =
             features_items (features (data (generate r2)))
         \<and> hero_subtitle (hero (data (generate r1))) = hero_subtitle (hero (data (generate r2)))"
proof -
  have "lower (strip (prompt r1)) = lower (strip (prompt r2))"
    using assms by (simp add: lower_strip)
  then show ?thesis
    by (simp add: generate_themeId generate_items generate_subtitle)
qed

text \<open>
  Claim C9 at two prompts that differ in case only, the last character being the capital
  and the small e with acute accent.
\<close>

theorem C9_case_noninterference_witness:
  "lower (prompt \<lparr>prompt = ''AI Dashboard '' @ [CHR 0xC9]\<rparr>) = lower (prompt \<lparr>prompt = ''ai dashBOARD '' @ [CHR 0xE9]\<rparr>)
   \<and> themeId (generate \<lparr>prompt = ''AI Dashboard '' @ [CHR 0xC9]\<rparr>) = themeId (generate \<lparr>prompt = ''ai dashBOARD '' @ [CHR 0xE9]\<rparr>)
   \<and> features_items (features (data (generate \<lparr>prompt = ''AI Dashboard '' @ [CHR 0xC9]\<rparr>))) =
        features_items (features (data (generate \<lparr>prompt = ''ai dashBOARD '' @ [CHR 0xE9]\<rparr>)))
   \<and> hero_subtitle (hero (data (generate \<lparr>prompt = ''AI Dashboard '' @ [CHR 0xC9]\<rparr>))) =
        hero_subtitle (hero (data (generate \<lparr>prompt = ''ai dashBOARD '' @ [CHR 0xE9]\<rparr>)))"
proof -
  have h: "lower (prompt \<lparr>prompt = ''AI Dashboard '' @ [CHR 0xC9]\<rparr>) = lower (prompt \<lparr>prompt = ''ai dashBOARD '' @ [CHR 0xE9]\<rparr>)"
    by code_simp
  from h C9_case_noninterference [OF h] show ?thesis by (intro conjI) simp_all
qed

section \<open>The product name\<close>

text \<open>
  The stripped prompt, when it is not empty, starts with a character that is not
  whitespace; that character starts the first token and the joined candidate, so the
  candidate is not empty after \<open>strip\<close> and the check \<open>if cand\<close> of the source always
  succeeds.
\<close>

lemma split_on_not_Nil: "split_on sep s \<noteq> []"
  by (induction s) (auto split: list.splits)

lemma split_on_head: "c \<noteq> sep \<Longrightarrow> \<exists>t ts. split_on sep (c # cs) = (c # t) # ts"
  using split_on_not_Nil [of sep cs] by (cases "split_on sep cs") simp_all

lemma space_chars: "is_space (CHR '' '')" "is_space (CHR 0x0A)"
  by (simp_all add: is_space_def whitespace_def)

lemma tokens_head:
  assumes "\<not> is_space c"
  shows "\<exists>t ts. tokens_of (c # cs) = (c # t) # ts"
proof -
  from assms space_chars have c: "c \<noteq> CHR '' ''" "c \<noteq> CHR 0x0A" by auto
  obtain t ts where
    "split_on (CHR '' '') (c # replace_char (CHR 0x0A) (CHR '' '') cs) = (c # t) # ts"
    using split_on_head [OF c(1)] by blast
  with c show ?thesis
    by (simp add: tokens_of_def replace_char_def)
qed

lemma join_head: "\<exists>r. join sep (take 3 ((c # t) # ts)) = c # r"
proof (cases "take 2 ts")
  case Nil
  then show ?thesis by (simp add: numeral_3_eq_3 numeral_2_eq_2)
next
  case (Cons y ys)
  then show ?thesis by (simp add: numeral_3_eq_3 numeral_2_eq_2)
qed

lemma strip_Cons_not_Nil:
  assumes "\<not> is_space c"
  shows "strip (c # r) \<noteq> []"
proof -
  from assms have "dropWhile is_space (rev (c # r)) \<noteq> []"
    by (auto simp: dropWhile_eq_Nil_conv)
  with assms show ?thesis by (simp add: strip_def)
qed

lemma tokens_of_Nil: "tokens_of [] = []"
  by (simp add: tokens_of_def replace_char_def)

lemma name_of_stripped:
  "name_of (strip p) =
     (if tokens_of (strip p) = [] then codes ''Your Product''
      else title (strip (join '' '' (take 3 (tokens_of (strip p))))))"
proof (cases "strip p")
  case Nil
  then show ?thesis by (simp add: name_of_def tokens_of_Nil)
next
  case (Cons c cs)
  with strip_head [of p] have c: "\<not> is_space c" by simp
  from tokens_head [OF c] obtain t ts where t: "tokens_of (c # cs) = (c # t) # ts" by blast
  from join_head obtain r where "join '' '' (take 3 ((c # t) # ts)) = c # r" by blast
  with c have "strip (join '' '' (take 3 ((c # t) # ts))) \<noteq> []"
    by (simp add: strip_Cons_not_Nil)
  with Cons t show ?thesis
    by (simp add: name_of_def Let_def)
qed

lemma strip_whitespace_only:
  assumes "list_all is_space p"
  shows "strip p = []"
proof -
  from assms have "dropWhile is_space p = []"
    by (simp add: dropWhile_eq_Nil_conv list_all_iff)
  then show ?thesis unfolding strip_def by (simp only: rev.simps dropWhile.simps)
qed

text \<open>
  Claim C4 describes the name as the title-cased join of the first three tokens. The
  source strips the joined candidate before title-casing it, and a token can end with
  whitespace other than a space or a newline: for the prompt \<open>a b c\<close>, a tab, \<open> d\<close> the
  third token is \<open>c\<close> followed by the tab, the source's name is \<open>A B C\<close>, and the claim's
  procedure gives \<open>A B C\<close> followed by the tab.
\<close>

theorem C4_counterexample:
  "name_of (strip (''a b c'' @ [CHR 0x09] @ '' d'')) = codes ''A B C''
   \<and> spec_name (''a b c'' @ [CHR 0x09] @ '' d'') = codes (''A B C'' @ [CHR 0x09])
   \<and> hero_title (hero (data (generate \<lparr>prompt = ''a b c'' @ [CHR 0x09] @ '' d''\<rparr>))) =
       codes ''A B C: launch faster with clarity''"
  by code_simp

text \<open>
  Title-casing above the code point 127: \<open>na\<close>, i with diaeresis, \<open>ve bank\<close> becomes \<open>Na\<close>, i with
  diaeresis, \<open>ve Bank\<close>; at the start of a word the sharp s becomes \<open>Ss\<close>, the micro sign
  the code point 924 and the y with diaeresis the code point 376.
\<close>

lemma title_examples:
  "title (''na'' @ [CHR 0xEF] @ ''ve bank'') = codes (''Na'' @ [CHR 0xEF] @ ''ve Bank'')"
  "title ([CHR 0xDF] @ ''a '' @ [CHR 0xB5] @ ''b '' @ [CHR 0xFF] @ ''c'') =
     codes ''Ssa '' @ [0x39C] @ codes ''b '' @ [0x178] @ codes ''c''"
  "title (''AI'' @ [CHR 0xC9] @ ''-x1y'') = codes (''Ai'' @ [CHR 0xE9] @ ''-X1Y'')"
  by code_simp+

text \<open>
  Claim C4, amended. The name is computed by replacing newlines with spaces in the trimmed
  prompt, splitting on single spaces, dropping empty tokens, joining the first three
  tokens with one space, stripping the whitespace around the joined string and title-casing
  the result; when there is no token the name is \<open>Your Product\<close>, which is the case of
  the empty and the whitespace-only prompt. The prompt
  \<open>  rocket ship builder extra words\<close> yields \<open>Rocket Ship Builder\<close>, and \<open>hero.title\<close> is
  the name followed by \<open>: launch faster with clarity\<close>.
\<close>

theorem C4_name_extraction:
  "hero_title (hero (data (generate req))) =
     name_of (strip (prompt req)) @ codes '': launch faster with clarity''
   \<and> name_of (strip (prompt req)) =
       (if tokens_of (strip (prompt req)) = [] then codes ''Your Product''
        else title (strip (join '' '' (take 3 (tokens_of (strip (prompt req)))))))
   \<and> (list_all is_space (prompt req) \<longrightarrow>
        name_of (strip (prompt req)) = codes ''Your Product'')
   \<and> name_of (strip ''  rocket ship builder extra words'') = codes ''Rocket Ship Builder''"
proof -
  have w: "list_all is_space (prompt req) \<longrightarrow>
      name_of (strip (prompt req)) = codes ''Your Product''"
    by (simp add: strip_whitespace_only name_of_def tokens_of_Nil)
  have e: "name_of (strip ''  rocket ship builder extra words'') = codes ''Rocket Ship Builder''"
    by code_simp
  from generate_title name_of_stripped w e show ?thesis by (intro conjI)
qed

text \<open>
  The amended claim C4 at a prompt of whitespace only: a no-break space, a space and a
  next-line character.
\<close>

theorem C4_name_extraction_witness:
  "list_all is_space (prompt \<lparr>prompt = [CHR 0xA0, CHR 0x20, CHR 0x85]\<rparr>)
   \<and> name_of (strip (prompt \<lparr>prompt = [CHR 0xA0, CHR 0x20, CHR 0x85]\<rparr>)) = codes ''Your Product''
   \<and> hero_title (hero (data (generate \<lparr>prompt = [CHR 0xA0, CHR 0x20, CHR 0x85]\<rparr>))) =
       codes ''Your Product'' @ codes '': launch faster with clarity''"
proof -
  let ?req = "\<lparr>prompt = [CHR 0xA0, CHR 0x20, CHR 0x85]\<rparr>"
  have h: "list_all is_space (prompt ?req)"
    by (simp add: is_space_def whitespace_def)
  from C4_name_extraction [of ?req] h
  have n: "name_of (strip (prompt ?req)) = codes ''Your Product''" by blast
  from C4_name_extraction [of ?req]
  have "hero_title (hero (data (generate ?req))) =
     name_of (strip (prompt ?req)) @ codes '': launch faster with clarity''" by blast
  with n have "hero_title (hero (data (generate ?req))) =
       codes ''Your Product'' @ codes '': launch faster with clarity''" by (simp only:)
  with h n show ?thesis by (intro conjI)
qed

section \<open>Facts about the diagnostic endpoint\<close>














end
